theory Spec2Isabelle
  imports Main
begin

section \<open>The command tree\<close>

text \<open>
  The engine of \<^verbatim>\<open>cmd.c\<close> walks a command tree built by the parser. The declarations of
  the tree (\<^verbatim>\<open>word_t\<close>, \<^verbatim>\<open>simple_command_t\<close>, \<^verbatim>\<open>command_t\<close>) are in headers the
  sources do not contain; the types below have the fields \<^verbatim>\<open>cmd.c\<close> reads, with the
  meaning the specification's data model gives them.
\<close>

text \<open>
  Modelled from the spec: the fragments of a word. A word is "possibly composed of
  literal/expandable fragments"; an expandable fragment names an environment variable.
\<close>

datatype part = Literal string | Expand string

text \<open>
  Modelled from the spec: \<^verbatim>\<open>word_t\<close>. The field \<open>string\<close> is the address of the word's
  underlying text object: \<^verbatim>\<open>cmd.c\<close> compares \<^verbatim>\<open>s->out->string == s->err->string\<close> as
  pointers, never as texts.
\<close>

record word_t =
  string :: nat
  parts :: "part list"

text \<open>
  Modelled from the spec: \<^verbatim>\<open>io_flags\<close> is a "set of {OUT_APPEND, ERR_APPEND}"; the test
  \<^verbatim>\<open>s->io_flags & IO_OUT_APPEND\<close> is membership.
\<close>

datatype io_flag = IO_OUT_APPEND | IO_ERR_APPEND

text \<open>
  Modelled from the spec: \<^verbatim>\<open>simple_command_t\<close>, the SimpleCommand of the data model, with
  the fields \<^verbatim>\<open>cmd.c\<close> reads. A null pointer is \<open>None\<close>. The parameters are the chain of
  words that starts at \<^verbatim>\<open>s->params\<close>, in order; the field \<^verbatim>\<open>in\<close> is named \<open>inp\<close> here.
\<close>

record simple_command_t =
  verb :: "word_t option"
  params :: "word_t list"
  inp :: "word_t option"
  out :: "word_t option"
  err :: "word_t option"
  io_flags :: "io_flag set"

text \<open>
  Modelled from the spec: \<^verbatim>\<open>operator_t\<close> and \<^verbatim>\<open>command_t\<close>, the CompoundCommand of the
  data model. The operators are those \<^verbatim>\<open>parse_command\<close> names; \<open>OP_DUMMY\<close> stands for
  every other value of the enumeration (the \<^verbatim>\<open>default\<close> label of the switch). A node has
  the fields \<^verbatim>\<open>cmd.c\<close> reads: \<^verbatim>\<open>op\<close>, \<^verbatim>\<open>scmd\<close>, \<^verbatim>\<open>cmd1\<close> and \<^verbatim>\<open>cmd2\<close>.
\<close>

datatype operator_t =
  OP_NONE | OP_SEQUENTIAL | OP_PARALLEL | OP_CONDITIONAL_ZERO | OP_CONDITIONAL_NZERO
| OP_PIPE | OP_DUMMY

datatype command_t =
  Command (op: operator_t) (scmd: "simple_command_t option")
    (cmd1: "command_t option") (cmd2: "command_t option")

section \<open>The process and its operating system\<close>

text \<open>
  The model follows one process. What the operating system answers to that process is part
  of the state: the file system, the working directory, the environment, the programs
  \<^verbatim>\<open>execvp\<close> can load, the descriptor table, and a script of the answers of \<^verbatim>\<open>fork\<close>.
  \<^verbatim>\<open>fork\<close> returns twice in the program; in the model each call returns once and the script
  says in which of the two processes the model continues. What the original process does
  is the run on the answer \<open>In_parent\<close>, where the script also says how the child will
  end; what the child does is the run of the same code on the answer \<open>In_child\<close>.
\<close>

datatype open_flag = O_RDONLY | O_WRONLY | O_CREAT | O_TRUNC | O_APPEND

record regular_file =
  content :: string
  readable :: bool
  writable :: bool

text \<open>What an open descriptor refers to.\<close>

datatype ofile =
  Tty | File string "open_flag list" | Dir string | Pipe_read nat | Pipe_write nat

text \<open>
  How a child ended, as \<^verbatim>\<open>waitpid\<close> reports it: \<open>Exited n\<close> for a child that called
  \<^verbatim>\<open>exit(n)\<close> (or returned \<open>n\<close> from \<^verbatim>\<open>main\<close>), \<open>Signaled k\<close> for one killed by signal
  \<open>k\<close>. \<^verbatim>\<open>WEXITSTATUS\<close> yields the low eight bits of \<open>n\<close>.
\<close>

datatype wait_status = Exited int | Signaled nat

fun WIFEXITED :: "wait_status \<Rightarrow> bool" where
  "WIFEXITED (Exited n) = True"
| "WIFEXITED (Signaled k) = False"

fun WEXITSTATUS :: "wait_status \<Rightarrow> int" where
  "WEXITSTATUS (Exited n) = n mod 256"
| "WEXITSTATUS (Signaled k) = 0"

text \<open>
  One answer of \<^verbatim>\<open>fork\<close>: the model continues in the child (\<^verbatim>\<open>fork\<close> returns 0), or in
  the parent (\<^verbatim>\<open>fork\<close> returns the child's pid, and the child will end as the status says),
  or no process was created (\<^verbatim>\<open>fork\<close> returns -1).
\<close>

datatype fork_result = In_child | In_parent int wait_status | Fork_failed

text \<open>
  \<open>live\<close> holds the heap blocks that are allocated and not yet freed; blocks are numbered
  from \<open>next_block\<close> and a number is never used twice. \<open>strtok_save\<close> is the position
  \<^verbatim>\<open>strtok\<close> keeps between calls. \<open>SHELL_EXIT\<close> is the value of the macro of that name in
  \<^verbatim>\<open>cmd.h\<close>, which is not among the sources: a parameter of the model.
\<close>

record world =
  files :: "(string \<times> regular_file) list"
  dirs :: "string list"
  cwd :: string
  environ :: "(string \<times> string) list"
  programs :: "string list"
  fds :: "(int \<times> ofile) list"
  next_pipe :: nat
  live :: "nat list"
  next_block :: nat
  strtok_save :: "(nat \<times> string) option"
  fork_script :: "fork_result list"
  children :: "(int \<times> wait_status) list"
  SHELL_EXIT :: int

text \<open>
  A call either returns a value to its caller (\<open>Ok\<close>) or control never comes back to the
  caller (\<open>Stop\<close>): the process called \<^verbatim>\<open>exit\<close>, it replaced its image with another
  program, or it did something for which C defines no continuation.
\<close>

datatype fault = Double_free | Use_after_free | Null_pointer | Indeterminate_value | Out_of_bounds

datatype stop = Exit int | Exec string "string list" | Undefined fault

datatype 'a result = Ok 'a | Stop stop

type_synonym 'a prog = "world \<Rightarrow> 'a result \<times> world"

definition return :: "'a \<Rightarrow> 'a prog" where
  "return v w = (Ok v, w)"

definition bind :: "'a prog \<Rightarrow> ('a \<Rightarrow> 'b prog) \<Rightarrow> 'b prog" where
  "bind m f w = (case m w of (Ok v, w') \<Rightarrow> f v w' | (Stop s, w') \<Rightarrow> (Stop s, w'))"

definition stop :: "stop \<Rightarrow> 'a prog" where
  "stop s w = (Stop s, w)"

text \<open>
  A function declared \<^verbatim>\<open>bool\<close> converts what it returns: any non-zero value becomes 1.
\<close>

definition as_bool :: "int \<Rightarrow> int" where
  "as_bool v = (if v \<noteq> 0 then 1 else 0)"

subsection \<open>The heap\<close>

text \<open>
  A pointer to a heap block is the block's number with the value read through the pointer;
  \<open>None\<close> is the null pointer. Reading through a pointer and freeing it need the block
  to be live.
\<close>

type_synonym 'a ptr = "(nat \<times> 'a) option"

definition malloc :: "'a \<Rightarrow> 'a ptr prog" where
  "malloc v w =
     (Ok (Some (next_block w, v)),
      w\<lparr>live := next_block w # live w, next_block := Suc (next_block w)\<rparr>)"

definition deref :: "'a ptr \<Rightarrow> 'a prog" where
  "deref p w =
     (case p of
        None \<Rightarrow> (Stop (Undefined Null_pointer), w)
      | Some (b, v) \<Rightarrow>
          if b \<in> set (live w) then (Ok v, w) else (Stop (Undefined Use_after_free), w))"

definition free :: "'a ptr \<Rightarrow> unit prog" where
  "free p w =
     (case p of
        None \<Rightarrow> (Ok (), w)
      | Some (b, v) \<Rightarrow>
          if b \<in> set (live w) then (Ok (), w\<lparr>live := removeAll b (live w)\<rparr>)
          else (Stop (Undefined Double_free), w))"

subsection \<open>Strings\<close>

text \<open>Only the comparison of the result with 0 is modelled.\<close>

definition strcmp :: "string ptr \<Rightarrow> string \<Rightarrow> int prog" where
  "strcmp p t = bind (deref p) (\<lambda>s. return (if s = t then 0 else 1))"

definition strchr :: "string ptr \<Rightarrow> char \<Rightarrow> string ptr prog" where
  "strchr p c =
     bind (deref p) (\<lambda>s.
       return (case p of
                 None \<Rightarrow> None
               | Some (b, x) \<Rightarrow>
                   if c \<in> set s then Some (b, dropWhile (\<lambda>x. x \<noteq> c) s) else None))"

text \<open>
  \<^verbatim>\<open>strtok\<close>: the next token of the string (of the saved position when the first argument
  is null). The token points into the block of the string it was cut from.
\<close>

definition strtok_from :: "nat \<Rightarrow> string \<Rightarrow> string \<Rightarrow> string ptr prog" where
  "strtok_from b s delim w =
     (let s1 = dropWhile (\<lambda>x. x \<in> set delim) s;
          tok = takeWhile (\<lambda>x. x \<notin> set delim) s1;
          rest = dropWhile (\<lambda>x. x \<notin> set delim) s1
      in if s1 = [] then (Ok None, w\<lparr>strtok_save := None\<rparr>)
         else (Ok (Some (b, tok)),
               w\<lparr>strtok_save := (if rest = [] then None else Some (b, tl rest))\<rparr>))"

definition strtok :: "string ptr \<Rightarrow> string \<Rightarrow> string ptr prog" where
  "strtok p delim w =
     (case p of
        Some (b, s) \<Rightarrow> bind (deref p) (\<lambda>s. strtok_from b s delim) w
      | None \<Rightarrow>
          (case strtok_save w of
             None \<Rightarrow> (Ok None, w)
           | Some (b, s) \<Rightarrow> bind (deref (Some (b, s))) (\<lambda>s. strtok_from b s delim) w))"

subsection \<open>Words\<close>

text \<open>
  Modelled from the spec: the word resolver \<^verbatim>\<open>get_word\<close> of \<^verbatim>\<open>utils.c\<close>, which is not
  among the sources. It "converts a parsed word into a plain string", a fresh heap string
  the caller frees; an expandable fragment is the value of its variable, empty when the
  variable is unset. \<^verbatim>\<open>cmd.c\<close> calls it on \<^verbatim>\<open>s->out\<close> of every \<^verbatim>\<open>cd\<close>, also when that is
  null: it then returns null.
\<close>

definition resolve :: "(string \<times> string) list \<Rightarrow> word_t \<Rightarrow> string" where
  "resolve env wd =
     concat (map (\<lambda>p. case p of
                         Literal s \<Rightarrow> s
                       | Expand v \<Rightarrow> (case map_of env v of Some x \<Rightarrow> x | None \<Rightarrow> []))
                 (parts wd))"

definition get_word :: "word_t option \<Rightarrow> string ptr prog" where
  "get_word s w =
     (case s of
        None \<Rightarrow> (Ok None, w)
      | Some wd \<Rightarrow> malloc (resolve (environ w) wd) w)"

fun get_words :: "word_t list \<Rightarrow> string ptr list prog" where
  "get_words [] = return []"
| "get_words (p # ps) =
     bind (get_word (Some p)) (\<lambda>x. bind (get_words ps) (\<lambda>xs. return (x # xs)))"

text \<open>
  Modelled from the spec: \<^verbatim>\<open>get_argv\<close> of \<^verbatim>\<open>utils.c\<close>, which is not among the sources.
  It resolves "verb and all arguments to plain strings" into a null-terminated argument
  vector with \<^verbatim>\<open>argv[0]\<close> the verb, and stores the number of arguments in \<^verbatim>\<open>*size\<close>.
\<close>

definition get_argv :: "simple_command_t \<Rightarrow> (string ptr list ptr \<times> int) prog" where
  "get_argv s =
     bind (get_word (verb s)) (\<lambda>v.
     bind (get_words (params s)) (\<lambda>ps.
     bind (malloc ((v # ps) @ [None])) (\<lambda>data.
     return (data, int (length (v # ps))))))"

subsection \<open>System calls\<close>

definition STDIN_FILENO :: int where "STDIN_FILENO = 0"
definition STDOUT_FILENO :: int where "STDOUT_FILENO = 1"
definition STDERR_FILENO :: int where "STDERR_FILENO = 2"

text \<open>The lowest descriptor that is not open.\<close>

definition lowest_free :: "(int \<times> ofile) list \<Rightarrow> int" where
  "lowest_free t =
     (case find (\<lambda>n. map_of t (int n) = None) [0..<Suc (length t)] of
        Some n \<Rightarrow> int n
      | None \<Rightarrow> int (Suc (length t)))"

definition new_fd :: "ofile \<Rightarrow> int prog" where
  "new_fd f w = (Ok (lowest_free (fds w)), w\<lparr>fds := (lowest_free (fds w), f) # fds w\<rparr>)"

text \<open>
  \<^verbatim>\<open>open(path, flags, mode)\<close>. Paths are names of the file system as they stand: the
  working directory does not enter the lookup. Reading needs a directory or a readable
  file. Writing needs a name that is not a directory; an existing file must be writable,
  \<^verbatim>\<open>O_TRUNC\<close> empties it, and \<^verbatim>\<open>O_CREAT\<close> creates a missing file empty, with the owner's
  permissions of \<open>mode\<close>. A failed call returns -1 and changes nothing.
\<close>

definition open_path :: "string \<Rightarrow> open_flag list \<Rightarrow> nat \<Rightarrow> int prog" where
  "open_path p flags mode w =
     (if O_RDONLY \<in> set flags then
        if p \<in> set (dirs w) then new_fd (Dir p) w
        else
          (case map_of (files w) p of
             None \<Rightarrow> (Ok (- 1), w)
           | Some f \<Rightarrow> if readable f then new_fd (File p flags) w else (Ok (- 1), w))
      else if p = [] \<or> p \<in> set (dirs w) then (Ok (- 1), w)
      else
        (case map_of (files w) p of
           None \<Rightarrow>
             if O_CREAT \<in> set flags then
               new_fd (File p flags)
                 (w\<lparr>files := (p, \<lparr>content = [], readable = odd (mode div 256),
                                   writable = odd (mode div 128)\<rparr>) # files w\<rparr>)
             else (Ok (- 1), w)
         | Some f \<Rightarrow>
             if writable f then
               new_fd (File p flags)
                 (if O_TRUNC \<in> set flags
                  then w\<lparr>files := (p, f\<lparr>content := []\<rparr>) # files w\<rparr> else w)
             else (Ok (- 1), w)))"

definition "open" :: "string ptr \<Rightarrow> open_flag list \<Rightarrow> nat \<Rightarrow> int prog" where
  "open path flags mode =
     (case path of
        None \<Rightarrow> return (- 1)
      | Some x \<Rightarrow> bind (deref path) (\<lambda>p. open_path p flags mode))"

text \<open>
  \<^verbatim>\<open>close\<close> and \<^verbatim>\<open>dup2\<close> fail, with -1 and no effect, on a descriptor that is negative or
  not open. \<^verbatim>\<open>dup2\<close> makes \<open>newfd\<close> refer to what \<open>oldfd\<close> refers to.
\<close>

definition close :: "int \<Rightarrow> int prog" where
  "close fd w =
     (if fd < 0 then (Ok (- 1), w)
      else
        (case map_of (fds w) fd of
           None \<Rightarrow> (Ok (- 1), w)
         | Some f \<Rightarrow> (Ok 0, w\<lparr>fds := filter (\<lambda>e. fst e \<noteq> fd) (fds w)\<rparr>)))"

definition dup2 :: "int \<Rightarrow> int \<Rightarrow> int prog" where
  "dup2 oldfd newfd w =
     (if oldfd < 0 \<or> newfd < 0 then (Ok (- 1), w)
      else
        (case map_of (fds w) oldfd of
           None \<Rightarrow> (Ok (- 1), w)
         | Some f \<Rightarrow>
             if oldfd = newfd then (Ok newfd, w)
             else
               (Ok newfd,
                w\<lparr>fds := (newfd, f) # filter (\<lambda>e. fst e \<noteq> newfd) (fds w)\<rparr>)))"

text \<open>\<^verbatim>\<open>pipe(fd)\<close>: the read end is \<^verbatim>\<open>fd[0]\<close>, the write end \<^verbatim>\<open>fd[1]\<close>.\<close>

definition pipe :: "(int \<times> int) prog" where
  "pipe w =
     (let w0 = w\<lparr>next_pipe := Suc (next_pipe w)\<rparr> in
      bind (new_fd (Pipe_read (next_pipe w))) (\<lambda>r.
      bind (new_fd (Pipe_write (next_pipe w))) (\<lambda>x. return (r, x))) w0)"

definition chdir :: "string ptr \<Rightarrow> int prog" where
  "chdir path =
     bind (deref path) (\<lambda>p w.
       if p \<in> set (dirs w) then (Ok 0, w\<lparr>cwd := p\<rparr>) else (Ok (- 1), w))"

definition setenv :: "string ptr \<Rightarrow> string ptr \<Rightarrow> int \<Rightarrow> int prog" where
  "setenv name val overwrite =
     (case name of
        None \<Rightarrow> return (- 1)
      | Some x \<Rightarrow>
          bind (deref name) (\<lambda>n.
            if n = [] \<or> CHR ''='' \<in> set n then return (- 1)
            else bind (deref val) (\<lambda>v w.
              if overwrite = 0 \<and> map_of (environ w) n \<noteq> None then (Ok 0, w)
              else (Ok 0, w\<lparr>environ := (n, v) # environ w\<rparr>))))"

definition exit :: "int \<Rightarrow> 'a prog" where
  "exit n = stop (Exit n)"

definition fork :: "int prog" where
  "fork w =
     (case fork_script w of
        [] \<Rightarrow> (Ok (- 1), w)
      | In_child # rs \<Rightarrow> (Ok 0, w\<lparr>fork_script := rs, children := []\<rparr>)
      | In_parent pid st # rs \<Rightarrow>
          (Ok pid, w\<lparr>fork_script := rs, children := children w @ [(pid, st)]\<rparr>)
      | Fork_failed # rs \<Rightarrow> (Ok (- 1), w\<lparr>fork_script := rs\<rparr>))"

text \<open>
  \<^verbatim>\<open>waitpid(pid, &status, options)\<close>: the second argument is what \<^verbatim>\<open>status\<close> holds before
  the call (\<open>None\<close> when it was never written), the result is the value returned with what
  \<^verbatim>\<open>status\<close> holds afterwards. A child that was waited for is gone. With \<open>pid = -1\<close> the
  call takes the first child there is.
\<close>

definition waitpid :: "int \<Rightarrow> wait_status option \<Rightarrow> int \<Rightarrow> (int \<times> wait_status option) prog" where
  "waitpid pid status options w =
     (if pid = - 1 then
        (case children w of
           [] \<Rightarrow> (Ok (- 1, status), w)
         | (p, st) # rest \<Rightarrow> (Ok (p, Some st), w\<lparr>children := rest\<rparr>))
      else
        (case map_of (children w) pid of
           None \<Rightarrow> (Ok (- 1, status), w)
         | Some st \<Rightarrow>
             (Ok (pid, Some st), w\<lparr>children := filter (\<lambda>e. fst e \<noteq> pid) (children w)\<rparr>)))"

text \<open>Reading \<^verbatim>\<open>status\<close>: a value only after a successful \<^verbatim>\<open>waitpid\<close>.\<close>

definition load :: "wait_status option \<Rightarrow> wait_status prog" where
  "load status =
     (case status of None \<Rightarrow> stop (Undefined Indeterminate_value) | Some st \<Rightarrow> return st)"

text \<open>
  \<^verbatim>\<open>execvp(file, argv)\<close>: a program that can be loaded replaces the process image, and the
  call does not return; otherwise it returns -1.
\<close>

definition execvp :: "string ptr \<Rightarrow> string ptr list ptr \<Rightarrow> int prog" where
  "execvp file argv =
     bind (deref file) (\<lambda>c.
     bind (deref argv) (\<lambda>a w.
       if c \<in> set (programs w)
       then (Stop (Exec c (map (\<lambda>p. snd (the p)) (takeWhile (\<lambda>p. p \<noteq> None) a))), w)
       else (Ok (- 1), w)))"

section \<open>The engine\<close>

text \<open>The mode \<^verbatim>\<open>0644\<close> of the calls of \<^verbatim>\<open>open\<close>, an octal numeral in C.\<close>

definition mode_0644 :: nat where
  "mode_0644 = 6 * 64 + 4 * 8 + 4"

text \<open>\<^verbatim>\<open>shell_cd\<close> (declared \<^verbatim>\<open>bool\<close>): the internal change-directory command.\<close>

definition shell_cd :: "word_t option \<Rightarrow> int prog" where
  "shell_cd dir =
     (if dir = None then return (as_bool (- 1))
      else
        bind (get_word dir) (\<lambda>path.
        bind (chdir path) (\<lambda>value.
        bind (free path) (\<lambda>u.
        return (as_bool value)))))"

text \<open>\<^verbatim>\<open>shell_exit\<close>: the internal exit/quit command.\<close>

definition shell_exit :: "int prog" where
  "shell_exit = bind (exit 0) (\<lambda>u :: unit. (\<lambda>w. (Ok (SHELL_EXIT w), w)))"

text \<open>
  The redirections of an external command, in the child: the block of \<^verbatim>\<open>parse_simple\<close>
  for \<^verbatim>\<open>s->in\<close> (lines 86 to 95), then the chain of alternatives for \<^verbatim>\<open>s->out\<close> and
  \<^verbatim>\<open>s->err\<close> (lines 96 to 156). No result of \<^verbatim>\<open>open\<close>, \<^verbatim>\<open>dup2\<close> or \<^verbatim>\<open>close\<close> is tested.
\<close>

definition redirect_input :: "simple_command_t \<Rightarrow> unit prog" where
  "redirect_input s =
     (if inp s \<noteq> None then
        bind (get_word (inp s)) (\<lambda>file_in.
        bind (open file_in [O_RDONLY] 0) (\<lambda>input_fd.
        bind (dup2 input_fd STDIN_FILENO) (\<lambda>r.
        bind (close input_fd) (\<lambda>r.
        free file_in))))
      else return ())"

definition redirect_output :: "simple_command_t \<Rightarrow> unit prog" where
  "redirect_output s =
     (if out s \<noteq> None \<and> IO_OUT_APPEND \<in> io_flags s then
        bind (get_word (out s)) (\<lambda>file_out.
        bind (open file_out [O_WRONLY, O_CREAT, O_APPEND] mode_0644) (\<lambda>output_fd.
        bind (dup2 output_fd STDOUT_FILENO) (\<lambda>r.
        bind (close output_fd) (\<lambda>r.
        free file_out))))
      else if err s \<noteq> None \<and> IO_ERR_APPEND \<in> io_flags s then
        bind (get_word (err s)) (\<lambda>file_err.
        bind (open file_err [O_WRONLY, O_CREAT, O_APPEND] mode_0644) (\<lambda>error_fd.
        bind (dup2 error_fd STDERR_FILENO) (\<lambda>r.
        bind (close error_fd) (\<lambda>r.
        free file_err))))
      else if out s \<noteq> None \<and> err s \<noteq> None
              \<and> string (the (out s)) = string (the (err s)) then
        bind (get_word (out s)) (\<lambda>file_out.
        bind (open file_out [O_WRONLY, O_CREAT, O_TRUNC] mode_0644) (\<lambda>output_fd.
        bind (dup2 output_fd STDOUT_FILENO) (\<lambda>r.
        bind (dup2 output_fd STDERR_FILENO) (\<lambda>r.
        bind (close output_fd) (\<lambda>r.
        free file_out)))))
      else if out s \<noteq> None \<and> err s \<noteq> None
              \<and> string (the (out s)) \<noteq> string (the (err s)) then
        bind (get_word (out s)) (\<lambda>file_out.
        bind (open file_out [O_WRONLY, O_CREAT, O_TRUNC] mode_0644) (\<lambda>output_fd.
        bind (dup2 output_fd STDOUT_FILENO) (\<lambda>r.
        bind (free file_out) (\<lambda>u.
        bind (get_word (err s)) (\<lambda>file_out.
        bind (open file_out [O_WRONLY, O_CREAT, O_TRUNC] mode_0644) (\<lambda>output_fd.
        bind (dup2 output_fd STDERR_FILENO) (\<lambda>r.
        bind (close output_fd) (\<lambda>r.
        free file_out))))))))
      else if out s \<noteq> None \<and> IO_OUT_APPEND \<notin> io_flags s \<and> err s = None then
        bind (get_word (out s)) (\<lambda>file_out.
        bind (open file_out [O_WRONLY, O_CREAT, O_TRUNC] mode_0644) (\<lambda>output_fd.
        bind (dup2 output_fd STDOUT_FILENO) (\<lambda>r.
        bind (close output_fd) (\<lambda>r.
        free file_out))))
      else if err s \<noteq> None \<and> IO_ERR_APPEND \<notin> io_flags s \<and> out s = None then
        bind (get_word (err s)) (\<lambda>file_err.
        bind (open file_err [O_WRONLY, O_CREAT, O_TRUNC] mode_0644) (\<lambda>error_fd.
        bind (dup2 error_fd STDERR_FILENO) (\<lambda>r.
        bind (close error_fd) (\<lambda>r.
        free file_err))))
      else return ())"

text \<open>
  The loop \<^verbatim>\<open>for (int i = 0; i < value; i++) free(data[i]);\<close> from index \<open>i\<close>; the last
  argument is the number of rounds left, \<open>value - i\<close>.
\<close>

fun free_args :: "string ptr list ptr \<Rightarrow> int \<Rightarrow> nat \<Rightarrow> unit prog" where
  "free_args data i 0 = return ()"
| "free_args data i (Suc n) =
     bind (deref data) (\<lambda>a.
       if nat i < length a
       then bind (free (a ! nat i)) (\<lambda>u. free_args data (i + 1) n)
       else stop (Undefined Out_of_bounds))"

text \<open>
  \<^verbatim>\<open>parse_simple\<close>: a simple command (internal, environment variable assignment, external
  command). Both calls of \<^verbatim>\<open>strcmp\<close> of the test for \<^verbatim>\<open>exit\<close> and \<^verbatim>\<open>quit\<close> are made
  before the test; they read the same live string and change nothing. After the call of
  \<^verbatim>\<open>fork\<close> the model is in the child when \<open>pid = 0\<close> and in the original process
  otherwise. Lines 174 and 175, \<^verbatim>\<open>free(command); return value;\<close>, end both branches: the
  child reaches them when \<^verbatim>\<open>execvp\<close> returned, the original process when the child did not
  exit normally, after line 170 has already freed \<^verbatim>\<open>command\<close>.
\<close>

definition parse_simple :: "simple_command_t option \<Rightarrow> int \<Rightarrow> command_t option \<Rightarrow> int prog" where
  "parse_simple sp level father =
     (case sp of
        None \<Rightarrow> return 0
      | Some s \<Rightarrow>
        if verb s = None then return 0
        else
        bind (get_word (verb s)) (\<lambda>command.
        bind (strcmp command ''cd'') (\<lambda>is_cd.
        if is_cd = 0 then
          bind (get_word (out s)) (\<lambda>filename.
          bind (open filename [O_WRONLY, O_CREAT, O_TRUNC] mode_0644) (\<lambda>output_fd.
          bind (close output_fd) (\<lambda>r.
          bind (shell_cd (case params s of [] \<Rightarrow> None | d # ds \<Rightarrow> Some d)) (\<lambda>data.
          bind (free filename) (\<lambda>u.
          bind (free command) (\<lambda>u.
          return data))))))
        else
        bind (strcmp command ''exit'') (\<lambda>is_exit.
        bind (strcmp command ''quit'') (\<lambda>is_quit.
        if is_exit = 0 \<or> is_quit = 0 then
          bind (free command) (\<lambda>u. shell_exit)
        else
        bind (strchr command CHR ''='') (\<lambda>eq.
        if eq \<noteq> None then
          bind (strtok command ''='') (\<lambda>variable.
          bind (strtok None ''='') (\<lambda>value.
          bind (free command) (\<lambda>u.
          setenv variable value 1)))
        else
        bind fork (\<lambda>pid.
        let value = 0 in
        if pid = 0 then
          bind (redirect_input s) (\<lambda>u.
          bind (redirect_output s) (\<lambda>u.
          bind (get_argv s) (\<lambda>(data, value).
          bind (execvp command data) (\<lambda>r.
          bind (free_args data 0 (nat value)) (\<lambda>u.
          bind (free data) (\<lambda>u.
          bind (free command) (\<lambda>u.
          return value)))))))
        else
          bind (waitpid pid None 0) (\<lambda>(r, status).
          bind (free command) (\<lambda>u.
          bind (load status) (\<lambda>st.
          if WIFEXITED st then return (WEXITSTATUS st)
          else
          bind (free command) (\<lambda>u.
          return value)))))))))))"

text \<open>
  \<^verbatim>\<open>parse_command\<close> with \<^verbatim>\<open>run_in_parallel\<close> and \<^verbatim>\<open>run_on_pipe\<close> (both declared
  \<^verbatim>\<open>bool\<close>), which call it back on the two children of a node. In \<^verbatim>\<open>run_on_pipe\<close> the
  array \<^verbatim>\<open>fd\<close> is the pair \<open>fd\<close>, with \<^verbatim>\<open>fd[0]\<close> its first component.
\<close>

function parse_command :: "command_t option \<Rightarrow> int \<Rightarrow> command_t option \<Rightarrow> int prog"
  and run_in_parallel ::
    "command_t option \<Rightarrow> command_t option \<Rightarrow> int \<Rightarrow> command_t option \<Rightarrow> int prog"
  and run_on_pipe ::
    "command_t option \<Rightarrow> command_t option \<Rightarrow> int \<Rightarrow> command_t option \<Rightarrow> int prog"
where
  "parse_command None level father = return (- 1)"
| "parse_command (Some c) level father =
     (if op c = OP_NONE then parse_simple (scmd c) level father
      else
        (case op c of
           OP_SEQUENTIAL \<Rightarrow>
             bind (parse_command (cmd1 c) (level + 1) (Some c)) (\<lambda>ret.
             bind (parse_command (cmd2 c) (level + 1) (Some c)) (\<lambda>ret.
             return ret))
         | OP_PARALLEL \<Rightarrow>
             bind (run_in_parallel (cmd1 c) (cmd2 c) (level + 1) (Some c)) (\<lambda>ret.
             return ret)
         | OP_CONDITIONAL_NZERO \<Rightarrow>
             bind (parse_command (cmd1 c) (level + 1) (Some c)) (\<lambda>ret.
             if ret \<noteq> 0 then
               bind (parse_command (cmd2 c) (level + 1) (Some c)) (\<lambda>ret. return ret)
             else return ret)
         | OP_CONDITIONAL_ZERO \<Rightarrow>
             bind (parse_command (cmd1 c) (level + 1) (Some c)) (\<lambda>ret.
             if ret = 0 then
               bind (parse_command (cmd2 c) (level + 1) (Some c)) (\<lambda>ret. return ret)
             else return ret)
         | OP_PIPE \<Rightarrow>
             bind (run_on_pipe (cmd1 c) (cmd2 c) (level + 1) (Some c)) (\<lambda>ret.
             return ret)
         | _ \<Rightarrow> (\<lambda>w. (Ok (SHELL_EXIT w), w))))"
| "run_in_parallel cmd1' cmd2' level father =
     bind fork (\<lambda>pid.
     if pid = 0 then
       bind (parse_command cmd1' (level + 1) father) (\<lambda>value.
       return (as_bool value))
     else
       bind (parse_command cmd2' (level + 1) father) (\<lambda>value.
       bind (waitpid pid None 0) (\<lambda>(r, status).
       bind (load status) (\<lambda>st.
       if WIFEXITED st then return (as_bool (WEXITSTATUS st))
       else return (as_bool value)))))"
| "run_on_pipe cmd1' cmd2' level father =
     bind pipe (\<lambda>fd.
     bind fork (\<lambda>pid.
     if pid = 0 then
       bind (close (fst fd)) (\<lambda>r.
       bind (dup2 (snd fd) STDOUT_FILENO) (\<lambda>ret.
       bind (parse_command cmd1' (level + 1) father) (\<lambda>v.
       exit v)))
     else
     bind fork (\<lambda>pid_2.
     if pid_2 = 0 then
       bind (close (snd fd)) (\<lambda>r.
       bind (dup2 (fst fd) STDIN_FILENO) (\<lambda>ret.
       bind (parse_command cmd2' (level + 1) father) (\<lambda>v.
       exit v)))
     else
     bind (close (fst fd)) (\<lambda>r.
     bind (close (snd fd)) (\<lambda>r.
     bind (waitpid pid None 0) (\<lambda>(r, status).
     bind (waitpid pid_2 status 0) (\<lambda>(ret, status).
     bind (load status) (\<lambda>st.
     if WIFEXITED st then return (as_bool (WEXITSTATUS st))
     else return (as_bool ret)))))))))"
  by pat_completeness auto
termination
proof -
  have both: "size_option size (cmd1 c) + size_option size (cmd2 c) < size c"
    for c :: command_t
    by (cases c) simp
  have left: "2 * size_option size (cmd1 c) < Suc (Suc (2 * size c))" for c :: command_t
    using both [of c] by simp
  have right: "2 * size_option size (cmd2 c) < Suc (Suc (2 * size c))" for c :: command_t
    using both [of c] by simp
  have pair: "2 * size_option size (cmd1 c) + 2 * size_option size (cmd2 c) < Suc (2 * size c)"
    for c :: command_t
    using both [of c] by simp
  show ?thesis
    by (relation "measure (\<lambda>x. case x of
          Inl (c, level, father) \<Rightarrow> 2 * size_option size c
        | Inr (Inl (c1, c2, level, father)) \<Rightarrow>
            2 * (size_option size c1 + size_option size c2) + 1
        | Inr (Inr (c1, c2, level, father)) \<Rightarrow>
            2 * (size_option size c1 + size_option size c2) + 1)")
      (simp_all add: left right pair)
qed

section \<open>Conditions and relations of the statements\<close>

text \<open>
  What \<^verbatim>\<open>open\<close> needs of the file system: a name can be read when it is a directory or a
  readable file; it can be created or truncated when it is not empty, not a directory and
  not a file without write permission.
\<close>

definition can_read :: "world \<Rightarrow> string \<Rightarrow> bool" where
  "can_read w p \<longleftrightarrow>
     p \<in> set (dirs w)
     \<or> (case map_of (files w) p of None \<Rightarrow> False | Some f \<Rightarrow> readable f)"


text \<open>
  What a run of redirections and allocations leaves as it was: the environment, the
  programs, the stream of standard input, and every heap block that existed before. A block
  is alive when it was allocated and not freed.
\<close>

definition untouched :: "world \<Rightarrow> world \<Rightarrow> bool" where
  "untouched w w' \<longleftrightarrow>
     environ w' = environ w \<and> programs w' = programs w
     \<and> map_of (fds w') 0 = map_of (fds w) 0
     \<and> next_block w \<le> next_block w'
     \<and> (\<forall>b<next_block w. (b \<in> set (live w')) = (b \<in> set (live w)))"

definition alive :: "nat \<Rightarrow> world \<Rightarrow> bool" where
  "alive b w \<longleftrightarrow> b < next_block w \<and> b \<in> set (live w)"

text \<open>
  \<open>runs w0 m w Q\<close>: from \<open>w\<close> the call \<open>m\<close> returns to its caller, in a state that
  leaves \<open>w0\<close> untouched, and its value and state satisfy \<open>Q\<close>.
\<close>

definition runs :: "world \<Rightarrow> 'a prog \<Rightarrow> world \<Rightarrow> ('a \<Rightarrow> world \<Rightarrow> bool) \<Rightarrow> bool" where
  "runs w0 m w Q \<longleftrightarrow> (\<exists>v w'. m w = (Ok v, w') \<and> untouched w0 w' \<and> Q v w')"

section \<open>Example inputs\<close>

text \<open>
  A process with its three standard streams on the terminal, a file \<^verbatim>\<open>in.txt\<close>, the
  directories \<^verbatim>\<open>/\<close> and \<^verbatim>\<open>/tmp\<close>, and the programs \<^verbatim>\<open>cat\<close> and \<^verbatim>\<open>sleep\<close> on its path.
\<close>

definition std_world :: world where
  "std_world =
     \<lparr>files = [(''in.txt'', \<lparr>content = ''hello'', readable = True, writable = True\<rparr>)],
      dirs = [''/'', ''/tmp''], cwd = ''/'', environ = [],
      programs = [''cat'', ''sleep''],
      fds = [(0, Tty), (1, Tty), (2, Tty)], next_pipe = 0, live = [], next_block = 0,
      strtok_save = None, fork_script = [], children = [], SHELL_EXIT = - 100\<rparr>"

text \<open>
  A word of one literal fragment, and a simple command without redirections, whose words
  are text objects of their own.
\<close>

definition lit :: "nat \<Rightarrow> string \<Rightarrow> word_t" where
  "lit a s = \<lparr>string = a, parts = [Literal s]\<rparr>"

definition simple :: "string \<Rightarrow> string list \<Rightarrow> simple_command_t" where
  "simple v ps =
     \<lparr>verb = Some (lit 100 v), params = map (\<lambda>(a, p). lit a p) (enumerate 101 ps),
      inp = None, out = None, err = None, io_flags = {}\<rparr>"

definition leaf :: "simple_command_t \<Rightarrow> command_t option" where
  "leaf s = Some (Command OP_NONE (Some s) None None)"

text \<open>\<^verbatim>\<open>cd /nope\<close> fails and \<^verbatim>\<open>cd /tmp\<close> succeeds in \<open>std_world\<close>.\<close>

definition cd_nope :: "command_t option" where
  "cd_nope = leaf (simple ''cd'' [''/nope''])"

definition cd_tmp :: "command_t option" where
  "cd_tmp = leaf (simple ''cd'' [''/tmp''])"

definition node :: "operator_t \<Rightarrow> command_t option \<Rightarrow> command_t option \<Rightarrow> command_t" where
  "node opr l r = Command opr None l r"

text \<open>
  The worlds of the examples that create processes: in \<open>child_world\<close> the next call of
  \<^verbatim>\<open>fork\<close> continues in the child; in \<open>signaled_world\<close> it continues in the original
  process, with a child 7 that signal 9 kills; in \<open>pipe_world\<close> the original process gets
  two children, of which the first exits with status 0 and the second with status 2.
\<close>

definition child_world :: world where
  "child_world = std_world\<lparr>fork_script := [In_child]\<rparr>"

definition signaled_world :: world where
  "signaled_world = std_world\<lparr>fork_script := [In_parent 7 (Signaled 9)]\<rparr>"

definition pipe_world :: world where
  "pipe_world =
     std_world\<lparr>fork_script := [In_parent 11 (Exited 0), In_parent 12 (Exited 2)]\<rparr>"

text \<open>
  \<^verbatim>\<open>cd /nope > in.txt\<close>, the two sides of \<^verbatim>\<open>cat in.txt | cat\<close>, \<^verbatim>\<open>cat > a.txt 2> b.txt\<close>
  and \<^verbatim>\<open>cat < missing\<close>.
\<close>

definition cd_redirected :: simple_command_t where
  "cd_redirected = (simple ''cd'' [''/nope''])\<lparr>out := Some (lit 5 ''in.txt'')\<rparr>"

text \<open>
  \<^verbatim>\<open>cd /nope > /tmp\<close>, whose target is a directory, and \<^verbatim>\<open>cd /tmp > ro.txt\<close> in a world
  where \<^verbatim>\<open>ro.txt\<close> is a file without write permission.
\<close>

definition cd_onto_dir :: simple_command_t where
  "cd_onto_dir = (simple ''cd'' [''/nope''])\<lparr>out := Some (lit 5 ''/tmp'')\<rparr>"

definition cd_onto_ro :: simple_command_t where
  "cd_onto_ro = (simple ''cd'' [''/tmp''])\<lparr>out := Some (lit 5 ''ro.txt'')\<rparr>"

definition ro_world :: world where
  "ro_world =
     std_world\<lparr>files :=
       (''ro.txt'', \<lparr>content = ''keep'', readable = True, writable = False\<rparr>)
         # files std_world\<rparr>"

definition cat_in :: "command_t option" where
  "cat_in = leaf (simple ''cat'' [''in.txt''])"

definition cat_plain :: "command_t option" where
  "cat_plain = leaf (simple ''cat'' [])"

definition two_targets :: simple_command_t where
  "two_targets =
     (simple ''cat'' [])\<lparr>out := Some (lit 5 ''a.txt''), err := Some (lit 6 ''b.txt'')\<rparr>"

definition cat_missing :: simple_command_t where
  "cat_missing = (simple ''cat'' [])\<lparr>inp := Some (lit 5 ''missing'')\<rparr>"

section \<open>The monad\<close>

lemma bind_Ok: "m w = (Ok v, w') \<Longrightarrow> bind m f w = f v w'"
  by (simp add: bind_def)

lemma bind_Stop: "m w = (Stop s, w') \<Longrightarrow> bind m f w = (Stop s, w')"
  by (simp add: bind_def)

lemma bind_return [simp]: "bind m return = m"
  by (rule ext) (simp add: bind_def return_def split: prod.splits result.splits)

lemma return_bind [simp]: "bind (return v) f = f v"
  by (rule ext) (simp add: bind_def return_def)

section \<open>Tables\<close>

text \<open>A pid that is not a child's: no entry of the table has it.\<close>

lemma not_child:
  "p \<notin> fst ` set cs \<Longrightarrow> filter (\<lambda>e. fst e \<noteq> p) cs = cs \<and> map_of cs p = None"
  by (induction cs) auto

text \<open>A table without the entries of one key.\<close>

lemma map_of_filter_fst:
  "map_of (filter (\<lambda>e. fst e \<noteq> k) t) j = (if j = k then None else map_of t j)"
  by (induction t) auto

text \<open>
  The descriptor \<^verbatim>\<open>open\<close> and \<^verbatim>\<open>pipe\<close> return is not open before: among the numbers from
  0 to the length of the table, one is no key of the table.
\<close>

lemma find_SomeD: "find P xs = Some x \<Longrightarrow> P x"
  by (induction xs) (auto split: if_splits)

lemma lowest_free_None: "map_of t (lowest_free t) = None"
proof (cases "find (\<lambda>n. map_of t (int n) = None) [0..<Suc (length t)]")
  case (Some n)
  from find_SomeD [OF Some] Some show ?thesis
    by (simp add: lowest_free_def)
next
  case None
  then have "\<forall>n\<le>length t. map_of t (int n) \<noteq> None"
    by (auto simp: find_None_iff less_Suc_eq_le simp del: upt_Suc)
  then have "int ` {..length t} \<subseteq> fst ` set t"
    by (auto simp: map_of_eq_None_iff)
  then have "card (int ` {..length t}) \<le> card (fst ` set t)"
    by (intro card_mono) auto
  moreover have "card (int ` {..length t}) = Suc (length t)"
    by (simp add: card_image)
  moreover have "card (fst ` set t) \<le> length t"
    by (meson card_image_le card_length le_trans List.finite_set)
  ultimately show ?thesis
    by simp
qed

lemma lowest_free_neq: "map_of t k = Some f \<Longrightarrow> lowest_free t \<noteq> k"
  using lowest_free_None [of t] by auto

section \<open>Runs on the examples\<close>

text \<open>The definitions a run on a concrete input unfolds.\<close>

lemmas eval_defs =
  parse_simple_def shell_cd_def shell_exit_def redirect_input_def redirect_output_def
  get_argv_def get_word_def resolve_def malloc_def deref_def free_def strcmp_def strchr_def
  strtok_def strtok_from_def open_def open_path_def new_fd_def lowest_free_def close_def
  dup2_def pipe_def chdir_def setenv_def exit_def fork_def waitpid_def load_def execvp_def
  bind_def return_def stop_def as_bool_def mode_0644_def
  STDIN_FILENO_def STDOUT_FILENO_def STDERR_FILENO_def

lemmas example_defs =
  std_world_def lit_def simple_def leaf_def cd_nope_def cd_tmp_def node_def
  child_world_def signaled_world_def pipe_world_def two_targets_def cat_missing_def
  cd_redirected_def cat_in_def cat_plain_def cd_onto_dir_def cd_onto_ro_def ro_world_def

text \<open>The two leaves of the examples, run in \<open>std_world\<close>.\<close>

lemma run_cd_nope:
  "parse_command cd_nope level father std_world = (Ok 1, std_world\<lparr>next_block := 2\<rparr>)"
  by (simp add: eval_defs example_defs)

lemma run_cd_tmp:
  "parse_command cd_tmp level father std_world
     = (Ok 0, std_world\<lparr>cwd := ''/tmp'', next_block := 2\<rparr>)"
  by (simp add: eval_defs example_defs)

lemma run_cd_tmp_after_nope:
  "parse_command cd_tmp level father (std_world\<lparr>next_block := 2\<rparr>)
     = (Ok 0, std_world\<lparr>cwd := ''/tmp'', next_block := 4\<rparr>)"
  by (simp add: eval_defs example_defs)

lemma run_cd_tmp_after_tmp:
  "parse_command cd_tmp level father (std_world\<lparr>cwd := ''/tmp'', next_block := 2\<rparr>)
     = (Ok 0, std_world\<lparr>cwd := ''/tmp'', next_block := 4\<rparr>)"
  by (simp add: eval_defs example_defs)

section \<open>The compound-command interpreter\<close>

text \<open>
  Claim C10. \<^verbatim>\<open>parse_command\<close> on a null command tree returns -1. On a leaf (operator
  \<open>OP_NONE\<close>) whose simple command is null, or whose simple command has a null verb, it
  returns 0 and the state of the process is the one it started in: nothing was done.
\<close>

theorem null_tree_and_null_leaf:
  "parse_command None level father w = (Ok (- 1), w)
   \<and> parse_command (Some (Command OP_NONE None c1 c2)) level father w = (Ok 0, w)
   \<and> parse_command (Some (Command OP_NONE (Some (s\<lparr>verb := None\<rparr>)) c1 c2)) level father w
       = (Ok 0, w)"
  by (simp add: parse_simple_def return_def)

theorem null_tree_and_null_leaf_witness:
  "parse_command None 0 None std_world = (Ok (- 1), std_world)
   \<and> parse_command (Some (Command OP_NONE None None None)) 0 None std_world
       = (Ok 0, std_world)
   \<and> parse_command
         (Some (Command OP_NONE (Some ((simple ''cat'' [])\<lparr>verb := None\<rparr>)) None None))
         0 None std_world
       = (Ok 0, std_world)"
  using null_tree_and_null_leaf [of 0 None std_world None None "simple ''cat'' []"]
  by simp

text \<open>
  Claim C7. At a \<open>OP_SEQUENTIAL\<close> node the left child runs first. When it has returned,
  with whatever status \<open>r1\<close>, the node runs the right child in the state the left child
  left, and what the node returns (status and state) is what the right child returns. The
  status \<open>r1\<close> of the left child has no influence: there is no short-circuit.
\<close>

theorem sequential_returns_right:
  assumes "op c = OP_SEQUENTIAL"
    and "parse_command (cmd1 c) (level + 1) (Some c) w = (Ok r1, w1)"
  shows "parse_command (Some c) level father w
           = parse_command (cmd2 c) (level + 1) (Some c) w1"
  using assms by (simp add: bind_Ok)

text \<open>
  \<^verbatim>\<open>cd /nope ; cd /tmp\<close>: the left child fails with status 1, the right child runs all the
  same and the node returns its status 0.
\<close>

theorem sequential_returns_right_witness:
  "parse_command (cmd1 (node OP_SEQUENTIAL cd_nope cd_tmp)) (0 + 1)
       (Some (node OP_SEQUENTIAL cd_nope cd_tmp)) std_world
     = (Ok 1, std_world\<lparr>next_block := 2\<rparr>)
   \<and> parse_command (Some (node OP_SEQUENTIAL cd_nope cd_tmp)) 0 None std_world
     = (Ok 0, std_world\<lparr>cwd := ''/tmp'', next_block := 4\<rparr>)"
proof -
  let ?c = "node OP_SEQUENTIAL cd_nope cd_tmp"
  have opr: "op ?c = OP_SEQUENTIAL"
    by (simp add: node_def)
  have l: "parse_command (cmd1 ?c) (0 + 1) (Some ?c) std_world
             = (Ok 1, std_world\<lparr>next_block := 2\<rparr>)"
    by (simp add: node_def run_cd_nope)
  have r: "parse_command (cmd2 ?c) (0 + 1) (Some ?c) (std_world\<lparr>next_block := 2\<rparr>)
             = (Ok 0, std_world\<lparr>cwd := ''/tmp'', next_block := 4\<rparr>)"
    by (simp add: node_def run_cd_tmp_after_nope)
  from sequential_returns_right [OF opr l, of None] l r show ?thesis
    by simp
qed

text \<open>
  Claim C8. At a conditional node the left child runs first. When it has returned with status
  \<open>r1\<close>: a \<open>OP_CONDITIONAL_ZERO\<close> node (and-if) runs the right child exactly when
  \<open>r1 = 0\<close>, a \<open>OP_CONDITIONAL_NZERO\<close> node (or-if) exactly when \<open>r1 \<noteq> 0\<close>. When the
  right child runs, it runs in the state the left child left and the node returns what it
  returns; otherwise the node returns the left child's status \<open>r1\<close> in the state the left
  child left.
\<close>

theorem conditional_runs_right_iff:
  assumes "parse_command (cmd1 c) (level + 1) (Some c) w = (Ok r1, w1)"
  shows "(op c = OP_CONDITIONAL_ZERO \<longrightarrow>
            parse_command (Some c) level father w =
              (if r1 = 0 then parse_command (cmd2 c) (level + 1) (Some c) w1
               else (Ok r1, w1)))
       \<and> (op c = OP_CONDITIONAL_NZERO \<longrightarrow>
            parse_command (Some c) level father w =
              (if r1 \<noteq> 0 then parse_command (cmd2 c) (level + 1) (Some c) w1
               else (Ok r1, w1)))"
  using assms by (simp add: bind_Ok return_def)

text \<open>
  \<^verbatim>\<open>cd /nope && cd /tmp\<close> returns 1 without running the right child (the directory is
  still \<^verbatim>\<open>/\<close>); \<^verbatim>\<open>cd /nope || cd /tmp\<close> runs it and returns 0; \<^verbatim>\<open>cd /tmp && cd /tmp\<close>
  runs it; \<^verbatim>\<open>cd /tmp || cd /tmp\<close> does not (two heap blocks were used, not four).
\<close>

theorem conditional_runs_right_iff_witness:
  "parse_command (Some (node OP_CONDITIONAL_ZERO cd_nope cd_tmp)) 0 None std_world
     = (Ok 1, std_world\<lparr>next_block := 2\<rparr>)
   \<and> parse_command (Some (node OP_CONDITIONAL_NZERO cd_nope cd_tmp)) 0 None std_world
     = (Ok 0, std_world\<lparr>cwd := ''/tmp'', next_block := 4\<rparr>)
   \<and> parse_command (Some (node OP_CONDITIONAL_ZERO cd_tmp cd_tmp)) 0 None std_world
     = (Ok 0, std_world\<lparr>cwd := ''/tmp'', next_block := 4\<rparr>)
   \<and> parse_command (Some (node OP_CONDITIONAL_NZERO cd_tmp cd_tmp)) 0 None std_world
     = (Ok 0, std_world\<lparr>cwd := ''/tmp'', next_block := 2\<rparr>)"
proof -
  have nope: "parse_command (cmd1 (node opr cd_nope cd_tmp)) (0 + 1)
                (Some (node opr cd_nope cd_tmp)) std_world
              = (Ok 1, std_world\<lparr>next_block := 2\<rparr>)" for opr
    by (simp add: node_def run_cd_nope)
  have tmp: "parse_command (cmd1 (node opr cd_tmp cd_tmp)) (0 + 1)
               (Some (node opr cd_tmp cd_tmp)) std_world
             = (Ok 0, std_world\<lparr>cwd := ''/tmp'', next_block := 2\<rparr>)" for opr
    by (simp add: node_def run_cd_tmp)
  from conditional_runs_right_iff [OF nope, of OP_CONDITIONAL_ZERO None]
    conditional_runs_right_iff [OF nope, of OP_CONDITIONAL_NZERO None]
    conditional_runs_right_iff [OF tmp, of OP_CONDITIONAL_ZERO None]
    conditional_runs_right_iff [OF tmp, of OP_CONDITIONAL_NZERO None]
  show ?thesis
    by (simp add: node_def run_cd_tmp_after_nope run_cd_tmp_after_tmp)
qed

section \<open>The simple-command executor: external commands\<close>

text \<open>
  Every external command whose child a signal kills: in the original process (the child's
  pid is new) \<^verbatim>\<open>parse_simple\<close> frees \<^verbatim>\<open>command\<close> twice and returns no status.
\<close>

lemma signaled_child_never_returns:
  assumes "verb s = Some v" and "resolve (environ w) v = cmd"
    and "cmd \<noteq> ''cd''" and "cmd \<noteq> ''exit''" and "cmd \<noteq> ''quit''"
    and "CHR ''='' \<notin> set cmd"
    and "fork_script w = In_parent p (Signaled k) # rest"
    and "0 < p" and "p \<notin> fst ` set (children w)"
  shows "fst (parse_simple (Some s) level father w) = Stop (Undefined Double_free)"
  using assms
  by (auto simp: parse_simple_def get_word_def malloc_def deref_def free_def strcmp_def
        strchr_def fork_def waitpid_def load_def bind_def return_def not_child map_add_def
      split: option.splits)

text \<open>
  Claim C1, at the command \<^verbatim>\<open>sleep 5\<close> whose child signal 9 kills. In the original process
  \<^verbatim>\<open>parse_simple\<close> frees \<^verbatim>\<open>command\<close> after \<^verbatim>\<open>waitpid\<close> (line 170); the child did not exit
  normally, so control leaves the branch and line 174 frees \<^verbatim>\<open>command\<close> a second time. No
  non-zero status is returned.
\<close>

theorem signaled_child_frees_twice:
  "parse_simple (Some (simple ''sleep'' [''5''])) 0 None signaled_world
     = (Stop (Undefined Double_free), signaled_world\<lparr>fork_script := [], next_block := 1\<rparr>)"
  by (simp add: eval_defs example_defs)

text \<open>
  Claim C2, at the command \<^verbatim>\<open>nosuch 5\<close>, which names no program. In the child \<^verbatim>\<open>execvp\<close>
  returns, the argument vector is freed, and \<^verbatim>\<open>parse_simple\<close> returns the number of
  arguments, 2, to its caller: the child does not terminate there.
\<close>

theorem failed_exec_returns_to_caller:
  "parse_simple (Some (simple ''nosuch'' [''5''])) 0 None child_world
     = (Ok 2, child_world\<lparr>fork_script := [], next_block := 4\<rparr>)"
  by code_simp

text \<open>
  Claim C6, at the command \<^verbatim>\<open>cat > a.txt 2> b.txt\<close>. When the child loads \<^verbatim>\<open>cat\<close>,
  descriptor 3, which was not open before and which the first \<^verbatim>\<open>open\<close> returned for
  \<^verbatim>\<open>a.txt\<close>, is still open: the branch for two different targets closes only the
  descriptor of the second \<^verbatim>\<open>open\<close>.
\<close>

theorem two_targets_leak_descriptor:
  "fst (parse_simple (Some two_targets) 0 None child_world) = Stop (Exec ''cat'' [''cat''])
   \<and> map_of (fds (snd (parse_simple (Some two_targets) 0 None child_world))) 3
       = Some (File ''a.txt'' [O_WRONLY, O_CREAT, O_TRUNC])
   \<and> map_of (fds child_world) 3 = None"
  by (simp add: eval_defs example_defs)

section \<open>Parallel execution\<close>

text \<open>
  Every \<open>OP_PARALLEL\<close> node, in the original process: the right command runs in this
  process; when it has returned, and the forked child is still to be waited for, the node
  waits for the child. It returns the child's exit status (as 0 or 1) when the child exited,
  the right command's status (as 0 or 1) when it did not.
\<close>

lemma parallel_parent_waits:
  assumes "op c = OP_PARALLEL" and "fork_script w = In_parent p st # rest"
    and "0 < p"
    and "parse_command (cmd2 c) (level + 1 + 1) (Some c)
           (w\<lparr>fork_script := rest, children := children w @ [(p, st)]\<rparr>) = (Ok r2, w2)"
    and "map_of (children w2) p = Some st"
  shows "\<exists>w'. parse_command (Some c) level father w
                 = (Ok (if WIFEXITED st then as_bool (WEXITSTATUS st) else as_bool r2), w')
              \<and> map_of (children w') p = None"
  using assms
  by (auto simp: fork_def waitpid_def load_def bind_def return_def map_of_filter_fst)

text \<open>
  Every \<open>OP_PARALLEL\<close> node, in the forked child: when the left command returns, the
  node returns its status (as 0 or 1) to the caller of \<^verbatim>\<open>parse_command\<close>.
\<close>

lemma forked_branch_returns:
  assumes "op c = OP_PARALLEL" and "fork_script w = In_child # rest"
    and "parse_command (cmd1 c) (level + 1 + 1) (Some c)
           (w\<lparr>fork_script := rest, children := []\<rparr>) = (Ok r, w1)"
  shows "parse_command (Some c) level father w = (Ok (as_bool r), w1)"
  using assms by (simp add: fork_def bind_def return_def)

text \<open>
  Claim C4, at the node \<^verbatim>\<open>cd /tmp & cd /nope\<close>. In the forked child \<^verbatim>\<open>run_in_parallel\<close>
  runs the left command (the directory becomes \<^verbatim>\<open>/tmp\<close>) and then returns its status to
  \<^verbatim>\<open>parse_command\<close>, which returns it to its own caller: the child does not terminate.
\<close>

theorem parallel_child_returns_to_caller:
  "parse_command (Some (node OP_PARALLEL cd_tmp cd_nope)) 0 None child_world
     = (Ok 0, child_world\<lparr>fork_script := [], cwd := ''/tmp'', next_block := 2\<rparr>)"
  by (simp add: eval_defs example_defs)

section \<open>Pipes\<close>

text \<open>
  Every \<open>OP_PIPE\<close> node, in the process that creates the two children (both calls of
  \<^verbatim>\<open>fork\<close> return a new pid): the node returns only after it has waited for both
  children, and neither is left among the children of the process. What it returns is what
  the conversion to \<^verbatim>\<open>bool\<close> leaves of the right child's status: 0 when the right child
  exited with status 0, and 1 in every other case.
\<close>

lemma pipe_parent_waits_for_both:
  assumes "op c = OP_PIPE"
    and "fork_script w = In_parent p1 s1 # In_parent p2 s2 # rest"
    and "0 < p1" and "0 < p2" and "p1 \<noteq> p2"
    and "p1 \<notin> fst ` set (children w)" and "p2 \<notin> fst ` set (children w)"
  shows "\<exists>w'. parse_command (Some c) level father w
                 = (Ok (if WIFEXITED s2 \<and> WEXITSTATUS s2 = 0 then 0 else 1), w')
              \<and> map_of (children w') p1 = None \<and> map_of (children w') p2 = None
              \<and> children w' = children w \<and> fork_script w' = rest"
  using assms
  by (auto simp: pipe_def new_fd_def close_def fork_def waitpid_def load_def bind_def return_def
        as_bool_def not_child map_add_def
      split: option.splits)

text \<open>
  \<^verbatim>\<open>cat in.txt | cat\<close> with children 11 and 12: when the right child exits with status 2 the
  node returns 1, and when it exits with status 0 while the left child exits with status 3
  the node returns 0. Both children are gone afterwards.
\<close>

lemma pipe_parent_waits_for_both_example:
  "(\<exists>w'. parse_command (Some (node OP_PIPE cat_in cat_plain)) 0 None pipe_world = (Ok 1, w')
          \<and> map_of (children w') 11 = None \<and> map_of (children w') 12 = None
          \<and> fork_script w' = [])
   \<and> (\<exists>w'. parse_command (Some (node OP_PIPE cat_in cat_plain)) 0 None
               (std_world\<lparr>fork_script := [In_parent 11 (Exited 3), In_parent 12 (Exited 0)]\<rparr>)
             = (Ok 0, w')
          \<and> map_of (children w') 11 = None \<and> map_of (children w') 12 = None
          \<and> fork_script w' = [])"
proof -
  let ?c = "node OP_PIPE cat_in cat_plain"
  let ?w = "std_world\<lparr>fork_script := [In_parent 11 (Exited 3), In_parent 12 (Exited 0)]\<rparr>"
  have opr: "op ?c = OP_PIPE"
    by (simp add: node_def)
  have script: "fork_script pipe_world = [In_parent 11 (Exited 0), In_parent 12 (Exited 2)]"
    "fork_script ?w = [In_parent 11 (Exited 3), In_parent 12 (Exited 0)]"
    by (simp_all add: pipe_world_def)
  have new: "11 \<notin> fst ` set (children pipe_world)" "12 \<notin> fst ` set (children pipe_world)"
    "11 \<notin> fst ` set (children ?w)" "12 \<notin> fst ` set (children ?w)"
    by (simp_all add: pipe_world_def std_world_def)
  from pipe_parent_waits_for_both [OF opr script(1) _ _ _ new(1,2), of 0 None]
    pipe_parent_waits_for_both [OF opr script(2) _ _ _ new(3,4), of 0 None]
  show ?thesis
    by (auto simp del: parse_command.simps)
qed

text \<open>
  Claim C3, at the node \<^verbatim>\<open>cat in.txt | cat\<close> in \<open>pipe_world\<close>. The original process
  waits for both children; the right child exits with status 2, line 238 returns
  \<^verbatim>\<open>WEXITSTATUS(status)\<close> from a function declared \<^verbatim>\<open>bool\<close>, and the node's status is 1,
  not 2.
\<close>

theorem pipe_status_not_exact:
  "fork_script pipe_world = [In_parent 11 (Exited 0), In_parent 12 (Exited 2)]
   \<and> WEXITSTATUS (Exited 2) = 2
   \<and> parse_command (Some (node OP_PIPE cat_in cat_plain)) 0 None pipe_world
       = (Ok 1, std_world\<lparr>next_pipe := 1\<rparr>)"
  by (simp add: eval_defs example_defs)

section \<open>The simple-command executor: cd\<close>




section \<open>Redirections of an external command\<close>

text \<open>
  The calls the child makes between \<^verbatim>\<open>fork\<close> and \<^verbatim>\<open>execvp\<close> return, and leave untouched
  what was there before them. Each rule says what holds after one call, for the code that
  follows it.
\<close>

lemma untouched_refl: "untouched w w"
  by (simp add: untouched_def)

lemma untouched_trans: "untouched w w' \<Longrightarrow> untouched w' w'' \<Longrightarrow> untouched w w''"
  by (auto simp: untouched_def)

lemma untouched_alive: "untouched w w' \<Longrightarrow> alive b w \<Longrightarrow> alive b w'"
  by (auto simp: untouched_def alive_def)

lemma runs_bind: "runs w0 m w (\<lambda>v w'. runs w0 (f v) w' Q) \<Longrightarrow> runs w0 (bind m f) w Q"
  by (auto simp: runs_def bind_def)

lemma runs_return: "untouched w0 w \<Longrightarrow> Q v w \<Longrightarrow> runs w0 (return v) w Q"
  by (auto simp: runs_def return_def)

lemma runs_get_word:
  assumes "untouched w0 w"
    and "\<And>w'. \<lbrakk>untouched w0 w'; alive (next_block w) w'; next_block w0 \<le> next_block w;
               \<forall>b. alive b w \<longrightarrow> alive b w'\<rbrakk>
          \<Longrightarrow> Q (Some (next_block w, resolve (environ w0) wd)) w'"
  shows "runs w0 (get_word (Some wd)) w Q"
proof -
  let ?w' = "w\<lparr>live := next_block w # live w, next_block := Suc (next_block w)\<rparr>"
  have "get_word (Some wd) w = (Ok (Some (next_block w, resolve (environ w0) wd)), ?w')"
    using assms(1) by (simp add: get_word_def malloc_def untouched_def)
  moreover have "untouched w0 ?w'"
    using assms(1) by (auto simp: untouched_def)
  moreover have "alive (next_block w) ?w'" and "\<forall>b. alive b w \<longrightarrow> alive b ?w'"
    by (auto simp: alive_def)
  moreover have "next_block w0 \<le> next_block w"
    using assms(1) by (simp add: untouched_def)
  ultimately show ?thesis
    using assms(2) by (auto simp: runs_def)
qed

lemma runs_open:
  assumes "untouched w0 w" and "alive b w" and "map_of (fds w0) 0 = Some f0"
    and "\<And>fd w'. \<lbrakk>untouched w0 w'; fd \<noteq> 0; \<forall>b. alive b w \<longrightarrow> alive b w'\<rbrakk> \<Longrightarrow> Q fd w'"
  shows "runs w0 (open (Some (b, p)) flags mode) w Q"
proof -
  have "\<exists>fd w'. open (Some (b, p)) flags mode w = (Ok fd, w') \<and> fd \<noteq> 0
           \<and> live w' = live w \<and> next_block w' = next_block w \<and> untouched w w'"
    using assms(1-3)
    by (auto simp: deref_def open_def open_path_def new_fd_def bind_def return_def
          untouched_def alive_def lowest_free_neq split: option.splits)
  then obtain fd w' where "open (Some (b, p)) flags mode w = (Ok fd, w')" "fd \<noteq> 0"
    "live w' = live w" "next_block w' = next_block w" "untouched w w'"
    by blast
  with assms(1) assms(4) [of w' fd] show ?thesis
    by (auto simp: runs_def alive_def intro: untouched_trans)
qed

lemma runs_dup2:
  assumes "untouched w0 w" and "k \<noteq> 0"
    and "\<And>r w'. \<lbrakk>untouched w0 w'; \<forall>b. alive b w \<longrightarrow> alive b w'\<rbrakk> \<Longrightarrow> Q r w'"
  shows "runs w0 (dup2 fd k) w Q"
proof -
  have "\<exists>r w'. dup2 fd k w = (Ok r, w')
           \<and> live w' = live w \<and> next_block w' = next_block w \<and> untouched w w'"
    using assms(2)
    by (auto simp: dup2_def untouched_def map_of_filter_fst split: option.splits)
  then obtain r w' where "dup2 fd k w = (Ok r, w')"
    "live w' = live w" "next_block w' = next_block w" "untouched w w'"
    by blast
  with assms(1) assms(3) [of w' r] show ?thesis
    by (auto simp: runs_def alive_def intro: untouched_trans)
qed

lemma runs_close:
  assumes "untouched w0 w" and "fd \<noteq> 0"
    and "\<And>r w'. \<lbrakk>untouched w0 w'; \<forall>b. alive b w \<longrightarrow> alive b w'\<rbrakk> \<Longrightarrow> Q r w'"
  shows "runs w0 (close fd) w Q"
proof -
  have "\<exists>r w'. close fd w = (Ok r, w')
           \<and> live w' = live w \<and> next_block w' = next_block w \<and> untouched w w'"
    using assms(2)
    by (auto simp: close_def untouched_def map_of_filter_fst split: option.splits)
  then obtain r w' where "close fd w = (Ok r, w')"
    "live w' = live w" "next_block w' = next_block w" "untouched w w'"
    by blast
  with assms(1) assms(3) [of w' r] show ?thesis
    by (auto simp: runs_def alive_def intro: untouched_trans)
qed

lemma runs_free:
  assumes "untouched w0 w" and "alive b w" and "next_block w0 \<le> b"
    and "\<And>w'. \<lbrakk>untouched w0 w'; \<forall>c. c \<noteq> b \<longrightarrow> alive c w \<longrightarrow> alive c w'\<rbrakk> \<Longrightarrow> Q () w'"
  shows "runs w0 (free (Some (b, v))) w Q"
proof -
  let ?w' = "w\<lparr>live := removeAll b (live w)\<rparr>"
  have "free (Some (b, v)) w = (Ok (), ?w')"
    using assms(2) by (simp add: free_def alive_def)
  moreover have "untouched w0 ?w'"
    using assms(1,3) by (auto simp: untouched_def)
  moreover have "\<forall>c. c \<noteq> b \<longrightarrow> alive c w \<longrightarrow> alive c ?w'"
    by (auto simp: alive_def)
  ultimately show ?thesis
    using assms(4) by (auto simp: runs_def)
qed

lemmas runs_rules = runs_bind runs_get_word runs_open runs_dup2 runs_close runs_free runs_return

lemma redirect_output_run:
  assumes "map_of (fds w) 0 = Some f0"
  shows "runs w (redirect_output s) w (\<lambda>u w'. True)"
  using assms untouched_refl [of w]
  by (auto simp: redirect_output_def STDOUT_FILENO_def STDERR_FILENO_def intro!: runs_rules)


lemma runs_malloc:
  assumes "untouched w0 w"
    and "\<And>w'. \<lbrakk>untouched w0 w'; alive (next_block w) w'; next_block w0 \<le> next_block w;
               \<forall>b. alive b w \<longrightarrow> alive b w'\<rbrakk>
          \<Longrightarrow> Q (Some (next_block w, x)) w'"
  shows "runs w0 (malloc x) w Q"
proof -
  let ?w' = "w\<lparr>live := next_block w # live w, next_block := Suc (next_block w)\<rparr>"
  have "malloc x w = (Ok (Some (next_block w, x)), ?w')"
    by (simp add: malloc_def)
  moreover have "untouched w0 ?w'"
    using assms(1) by (auto simp: untouched_def)
  moreover have "alive (next_block w) ?w'" and "\<forall>b. alive b w \<longrightarrow> alive b ?w'"
    by (auto simp: alive_def)
  moreover have "next_block w0 \<le> next_block w"
    using assms(1) by (simp add: untouched_def)
  ultimately show ?thesis
    using assms(2) by (auto simp: runs_def)
qed

lemma runs_get_words:
  assumes "untouched w0 w"
    and "\<And>ps w'. \<lbrakk>untouched w0 w'; \<forall>b. alive b w \<longrightarrow> alive b w';
                  None \<notin> set ps;
                  map (\<lambda>p. snd (the p)) ps = map (resolve (environ w0)) xs\<rbrakk>
          \<Longrightarrow> Q ps w'"
  shows "runs w0 (get_words xs) w Q"
  using assms
proof (induction xs arbitrary: w Q)
  case Nil
  then show ?case
    by (auto intro!: runs_return)
next
  case (Cons x xs)
  show ?case
    unfolding get_words.simps
    by (rule runs_bind, rule runs_get_word [OF Cons.prems(1)], rule runs_bind,
        rule Cons.IH, assumption, rule runs_return, assumption, rule Cons.prems(2))
      auto
qed

lemma runs_get_argv:
  assumes "untouched w0 w" and "verb s = Some v"
    and "\<And>b a k w'. \<lbrakk>untouched w0 w'; \<forall>c. alive c w \<longrightarrow> alive c w'; alive b w';
                  None \<notin> set a;
                  map (\<lambda>p. snd (the p)) a
                    = resolve (environ w0) v # map (resolve (environ w0)) (params s)\<rbrakk>
          \<Longrightarrow> Q (Some (b, a @ [None]), k) w'"
  shows "runs w0 (get_argv s) w Q"
  unfolding get_argv_def assms(2)
proof (rule runs_bind, rule runs_get_word [OF assms(1)])
  fix w1
  assume a1: "untouched w0 w1" "\<forall>b. alive b w \<longrightarrow> alive b w1"
  let ?x = "Some (next_block w, resolve (environ w0) v)"
  show "runs w0 (bind (get_words (params s)) (\<lambda>ps. bind (malloc ((?x # ps) @ [None]))
          (\<lambda>data. return (data, int (length (?x # ps)))))) w1 Q"
  proof (rule runs_bind, rule runs_get_words [OF a1(1)])
    fix ps :: "string ptr list" and w2
    assume a2: "untouched w0 w2" "\<forall>b. alive b w1 \<longrightarrow> alive b w2" "None \<notin> set ps"
      "map (\<lambda>p. snd (the p)) ps = map (resolve (environ w0)) (params s)"
    show "runs w0 (bind (malloc ((?x # ps) @ [None]))
            (\<lambda>data. return (data, int (length (?x # ps))))) w2 Q"
    proof (rule runs_bind, rule runs_malloc [OF a2(1)], rule runs_return)
      fix w3
      assume a3: "untouched w0 w3" "alive (next_block w2) w3"
        "\<forall>b. alive b w2 \<longrightarrow> alive b w3"
      show "untouched w0 w3"
        by fact
      show "Q (Some (next_block w2, (?x # ps) @ [None]), int (length (?x # ps))) w3"
        by (rule assms(3)) (use a1 a2 a3 in auto)
    qed
  qed
qed

lemma redirect_input_failed:
  assumes "inp s = Some t" and "\<not> can_read w (resolve (environ w) t)"
  shows "redirect_input s w
           = (Ok (), w\<lparr>live := removeAll (next_block w) (live w),
                         next_block := Suc (next_block w)\<rparr>)"
  using assms
  by (simp add: redirect_input_def get_word_def malloc_def open_def open_path_def deref_def
        bind_def dup2_def close_def free_def can_read_def STDIN_FILENO_def return_def
      split: option.splits)

lemma execvp_loads:
  assumes "alive n w" and "alive b w" and "cmd \<in> set (programs w)" and "None \<notin> set a"
  shows "execvp (Some (n, cmd)) (Some (b, a @ [None])) w
           = (Stop (Exec cmd (map (\<lambda>p. snd (the p)) a)), w)"
proof -
  have "\<And>x. x \<in> set a \<Longrightarrow> x \<noteq> None"
    using assms(4) by metis
  then have "takeWhile (\<lambda>p. p \<noteq> None) (a @ [None])
               = a @ takeWhile (\<lambda>p. p \<noteq> None) [None]"
    by (rule takeWhile_append2)
  then have "takeWhile (\<lambda>p. p \<noteq> None) (a @ [None]) = a"
    by simp
  with assms(1-3) show ?thesis
    by (simp add: execvp_def deref_def bind_def alive_def)
qed

text \<open>
  Claim C5, as the code has it. For an external command (its verb resolves to a name that is
  not \<^verbatim>\<open>cd\<close>, \<^verbatim>\<open>exit\<close> or \<^verbatim>\<open>quit\<close> and holds no \<^verbatim>\<open>=\<close>) with an input redirection whose
  target does not exist or is not readable, in the child, with standard input open: the
  failed \<^verbatim>\<open>open\<close> is ignored. Standard input is still the stream it was, and when the
  program can be loaded the child loads it, with the verb and every parameter as its
  arguments. The failed redirection yields no status of its own.
\<close>

theorem failed_input_redirection_ignored:
  assumes "verb s = Some v" and "resolve (environ w) v = cmd"
    and "cmd \<noteq> ''cd''" and "cmd \<noteq> ''exit''" and "cmd \<noteq> ''quit''" and "CHR ''='' \<notin> set cmd"
    and "fork_script w = In_child # rest"
    and "inp s = Some t" and "\<not> can_read w (resolve (environ w) t)"
    and "map_of (fds w) STDIN_FILENO = Some f0"
    and "cmd \<in> set (programs w)"
  shows "\<exists>w'. parse_simple (Some s) level father w
                 = (Stop (Exec cmd (cmd # map (resolve (environ w)) (params s))), w')
              \<and> map_of (fds w') STDIN_FILENO = Some f0"
proof -
  define n where "n = next_block w"
  define w1 where "w1 = w\<lparr>live := n # live w, next_block := Suc n\<rparr>"
  define w2 where "w2 = w1\<lparr>fork_script := rest, children := []\<rparr>"
  define w3 where "w3 = w2\<lparr>live := removeAll (next_block w2) (live w2),
                            next_block := Suc (next_block w2)\<rparr>"
  have p1: "get_word (verb s) w = (Ok (Some (n, cmd)), w1)"
    using assms(1,2) by (simp add: get_word_def malloc_def n_def w1_def)
  have live1: "n \<in> set (live w1)"
    by (simp add: w1_def)
  have p2: "strcmp (Some (n, cmd)) ''cd'' w1 = (Ok 1, w1)"
    "strcmp (Some (n, cmd)) ''exit'' w1 = (Ok 1, w1)"
    "strcmp (Some (n, cmd)) ''quit'' w1 = (Ok 1, w1)"
    "strchr (Some (n, cmd)) CHR ''='' w1 = (Ok None, w1)"
    using assms(3-6) live1 by (simp_all add: strcmp_def strchr_def deref_def bind_def return_def)
  have p3: "fork w1 = (Ok 0, w2)"
    using assms(7) by (simp add: fork_def w1_def w2_def)
  have "\<not> can_read w2 (resolve (environ w2) t)"
    using assms(9) by (simp add: can_read_def w1_def w2_def)
  from redirect_input_failed [OF assms(8) this]
  have p4: "redirect_input s w2 = (Ok (), w3)"
    by (simp add: w3_def)
  have a3: "alive n w3"
    by (simp add: alive_def w3_def w2_def w1_def)
  have e3: "environ w3 = environ w" "programs w3 = programs w" "map_of (fds w3) 0 = Some f0"
    using assms(10) by (simp_all add: w3_def w2_def w1_def STDIN_FILENO_def)
  from redirect_output_run [OF e3(3), of s]
  obtain w4 where p5: "redirect_output s w3 = (Ok (), w4)" and u4: "untouched w3 w4"
    by (auto simp: runs_def)
  have "runs w4 (get_argv s) w4 (\<lambda>r w'. \<exists>b a k. r = (Some (b, a @ [None]), k) \<and> alive b w'
          \<and> None \<notin> set a
          \<and> map (\<lambda>p. snd (the p)) a
              = resolve (environ w4) v # map (resolve (environ w4)) (params s))"
    by (rule runs_get_argv [OF untouched_refl assms(1)]) auto
  then obtain b a k w5 where p6: "get_argv s w4 = (Ok (Some (b, a @ [None]), k), w5)"
    and u5: "untouched w4 w5" and a5: "alive b w5" "None \<notin> set a"
    and args: "map (\<lambda>p. snd (the p)) a
                 = resolve (environ w4) v # map (resolve (environ w4)) (params s)"
    by (auto simp: runs_def)
  have u35: "untouched w3 w5"
    using u4 u5 by (rule untouched_trans)
  have e5: "environ w4 = environ w" "programs w5 = programs w" "map_of (fds w5) 0 = Some f0"
    using u4 u35 e3 by (simp_all add: untouched_def)
  have p7: "execvp (Some (n, cmd)) (Some (b, a @ [None])) w5
              = (Stop (Exec cmd (map (\<lambda>p. snd (the p)) a)), w5)"
    using untouched_alive [OF u35 a3] a5 assms(11) e5(2) by (intro execvp_loads) simp_all
  have "parse_simple (Some s) level father w
          = (Stop (Exec cmd (map (\<lambda>p. snd (the p)) a)), w5)"
    using assms(1) p1 p2 p3 p4 p5 p6 p7
    by (simp add: parse_simple_def bind_def)
  then show ?thesis
    using args e5 assms(2) by (auto simp: STDIN_FILENO_def)
qed

text \<open>\<^verbatim>\<open>cat < missing\<close> in the child: \<^verbatim>\<open>cat\<close> is loaded, standard input is the terminal.\<close>

theorem failed_input_redirection_ignored_witness:
  "\<not> can_read child_world ''missing''
   \<and> (\<exists>w'. parse_simple (Some cat_missing) 0 None child_world
               = (Stop (Exec ''cat'' [''cat'']), w')
          \<and> map_of (fds w') STDIN_FILENO = Some Tty)"
  using failed_input_redirection_ignored
      [of cat_missing "lit 100 ''cat''" child_world "''cat''" "[]" "lit 5 ''missing''" Tty 0 None]
  by (simp add: cat_missing_def simple_def lit_def child_world_def std_world_def resolve_def
        can_read_def STDIN_FILENO_def)

text \<open>
  Claim C5 as stated fails: \<^verbatim>\<open>missing\<close> is no file and no directory of \<open>child_world\<close>,
  and the child of \<^verbatim>\<open>cat < missing\<close> loads \<^verbatim>\<open>cat\<close> all the same.
\<close>

theorem failed_input_redirection_launches:
  "inp cat_missing = Some (lit 5 ''missing'')
   \<and> map_of (files child_world) ''missing'' = None
   \<and> ''missing'' \<notin> set (dirs child_world)
   \<and> fst (parse_simple (Some cat_missing) 0 None child_world) = Stop (Exec ''cat'' [''cat''])"
  by (simp add: eval_defs example_defs)

end
